theory Spec2Isabelle
  imports Complex_Main "HOL-Library.Multiset"
begin

section \<open>Values\<close>

text \<open>
  A float64 value is either a finite number or NaN. Finite values are taken as reals:
  rounding and the infinities are outside this model. A cell of a row is a float or
  Python's \<open>None\<close>; \<open>None\<close> of the option type stands for Python's \<open>None\<close>.
\<close>

datatype pyfloat = NaN | Fin real

type_synonym cell = "pyfloat option"

datatype error = ValueError | TypeError | KeyError

text \<open>\<open>pd.isna\<close> on a scalar: true for \<open>None\<close> and for NaN.\<close>

fun isna :: "cell \<Rightarrow> bool" where
  "isna None = True"
| "isna (Some NaN) = True"
| "isna (Some (Fin x)) = False"

text \<open>Float comparison and arithmetic: every comparison with NaN is false, NaN absorbs.\<close>

fun fle :: "pyfloat \<Rightarrow> real \<Rightarrow> bool" where
  "fle NaN c = False"
| "fle (Fin x) c = (x \<le> c)"

fun fgt :: "pyfloat \<Rightarrow> real \<Rightarrow> bool" where
  "fgt NaN c = False"
| "fgt (Fin x) c = (x > c)"

fun fadd :: "pyfloat \<Rightarrow> pyfloat \<Rightarrow> pyfloat" where
  "fadd (Fin x) (Fin y) = Fin (x + y)"
| "fadd _ _ = NaN"

text \<open>
  \<open>v * k\<close> for a cell \<open>v\<close> and an integer literal \<open>k\<close>: Python raises TypeError when
  \<open>v\<close> is \<open>None\<close>.
\<close>

fun py_mul :: "cell \<Rightarrow> real \<Rightarrow> error + pyfloat" where
  "py_mul None k = Inl TypeError"
| "py_mul (Some NaN) k = Inr NaN"
| "py_mul (Some (Fin x)) k = Inr (Fin (x * k))"

section \<open>Feature Deriver (transform.py)\<close>

definition POLLUTANTS :: "string list" where
  "POLLUTANTS = [''pm10'', ''pm2_5'', ''carbon_monoxide'', ''nitrogen_dioxide'',
                 ''sulphur_dioxide'', ''ozone'', ''uv_index'']"

record datetime =
  dt_year :: nat
  dt_month :: nat
  dt_day :: nat
  dt_hour :: nat
  dt_minute :: nat
  dt_second :: nat

text \<open>
  A row is the dict built by the loop of transform.py: the city, the parsed timestamp and
  one entry per pollutant, kept as an association list in insertion order.
\<close>

record row =
  city :: string
  time :: datetime
  readings :: "(string \<times> cell) list"

text \<open>\<open>row.get(key, default)\<close>: the default is used only when the key is absent.\<close>

definition row_get :: "(string \<times> cell) list \<Rightarrow> string \<Rightarrow> cell \<Rightarrow> cell" where
  "row_get kvs key dflt = (case map_of kvs key of None \<Rightarrow> dflt | Some v \<Rightarrow> v)"

fun compute_aqi :: "cell \<Rightarrow> string option" where
  "compute_aqi None = None"
| "compute_aqi (Some v) =
     (if isna (Some v) then None
      else if fle v 50 then Some ''Good''
      else if fle v 100 then Some ''Moderate''
      else if fle v 200 then Some ''Unhealthy''
      else if fle v 300 then Some ''Very Unhealthy''
      else Some ''Hazardous'')"

text \<open>
  The six products are evaluated left to right and added; a product with \<open>None\<close> raises
  before any later one is evaluated.
\<close>

definition bind_err :: "error + 'a \<Rightarrow> ('a \<Rightarrow> error + 'b) \<Rightarrow> error + 'b" where
  "bind_err m f = (case m of Inl e \<Rightarrow> Inl e | Inr x \<Rightarrow> f x)"

definition compute_severity :: "(string \<times> cell) list \<Rightarrow> error + pyfloat" where
  "compute_severity r =
     bind_err (py_mul (row_get r ''pm2_5'' (Some (Fin 0))) 5) (\<lambda>a.
     bind_err (py_mul (row_get r ''pm10'' (Some (Fin 0))) 3) (\<lambda>b.
     bind_err (py_mul (row_get r ''nitrogen_dioxide'' (Some (Fin 0))) 4) (\<lambda>c.
     bind_err (py_mul (row_get r ''sulphur_dioxide'' (Some (Fin 0))) 4) (\<lambda>d.
     bind_err (py_mul (row_get r ''carbon_monoxide'' (Some (Fin 0))) 2) (\<lambda>e.
     bind_err (py_mul (row_get r ''ozone'' (Some (Fin 0))) 3) (\<lambda>f.
       Inr (fadd (fadd (fadd (fadd (fadd a b) c) d) e) f)))))))"

definition classify_risk :: "pyfloat \<Rightarrow> string" where
  "classify_risk severity =
     (if fgt severity 400 then ''High Risk''
      else if fgt severity 200 then ''Moderate Risk''
      else ''Low Risk'')"

section \<open>Record Flattener (transform.py)\<close>

text \<open>
  Entries of a pollutant array, seen through \<open>pd.to_numeric(v, errors="coerce")\<close>:
  JSON null, an entry the library converts to a number (a JSON number or a numeric
  string), or an entry it cannot convert. Entries of the time axis, seen through
  \<open>pd.to_datetime\<close>: a string the library parses to a timestamp, or one it rejects.
\<close>

datatype jval = JNull | JNum real | JBad

datatype tval = TStamp datetime | TBad

fun to_numeric :: "jval \<Rightarrow> pyfloat" where
  "to_numeric JNull = NaN"
| "to_numeric (JNum x) = Fin x"
| "to_numeric JBad = NaN"

text \<open>\<open>pd.to_datetime\<close> is called with its default \<open>errors="raise"\<close>.\<close>

fun to_datetime :: "tval \<Rightarrow> error + datetime" where
  "to_datetime (TStamp t) = Inr t"
| "to_datetime TBad = Inl ValueError"

text \<open>
  The \<open>hourly\<close> object of one document: its \<open>time\<close> array (absent is the same as
  empty) and its other keys. A raw file has the city derived from its name and, unless
  it is invalid JSON, its \<open>hourly\<close> object (a document without one has an empty one).
\<close>

record hourly =
  h_time :: "tval list"
  h_series :: "(string \<times> jval list) list"

record raw_file =
  f_city :: string
  f_doc :: "hourly option"

definition series_get :: "hourly \<Rightarrow> string \<Rightarrow> jval list" where
  "series_get h pol = (case map_of (h_series h) pol of None \<Rightarrow> [] | Some vs \<Rightarrow> vs)"

definition reading :: "hourly \<Rightarrow> nat \<Rightarrow> string \<Rightarrow> cell" where
  "reading h i pol =
     (let vals = series_get h pol
      in if i < length vals then Some (to_numeric (vals ! i)) else None)"

definition build_row :: "string \<Rightarrow> hourly \<Rightarrow> nat \<Rightarrow> tval \<Rightarrow> error + row" where
  "build_row c h i ts =
     bind_err (to_datetime ts) (\<lambda>t.
       Inr \<lparr>city = c, time = t, readings = map (\<lambda>pol. (pol, reading h i pol)) POLLUTANTS\<rparr>)"

text \<open>The loop over \<open>enumerate(times)\<close>, appending to \<open>all_records\<close>.\<close>

fun build_rows :: "string \<Rightarrow> hourly \<Rightarrow> nat \<Rightarrow> tval list \<Rightarrow> row list \<Rightarrow> error + row list" where
  "build_rows c h i [] acc = Inr acc"
| "build_rows c h i (ts # rest) acc =
     bind_err (build_row c h i ts) (\<lambda>r. build_rows c h (Suc i) rest (acc @ [r]))"

text \<open>The loop over the raw files: invalid JSON and an empty time axis skip the file.\<close>

fun read_files :: "raw_file list \<Rightarrow> row list \<Rightarrow> error + row list" where
  "read_files [] acc = Inr acc"
| "read_files (f # fs) acc =
     (case f_doc f of
        None \<Rightarrow> read_files fs acc
      | Some h \<Rightarrow>
          if h_time h = [] then read_files fs acc
          else bind_err (build_rows (f_city f) h 0 (h_time h) acc) (\<lambda>acc'. read_files fs acc'))"

text \<open>
  \<open>pd.DataFrame(all_records)\<close>: a pollutant column in which every entry is \<open>None\<close>
  keeps dtype object and its \<open>None\<close>s; any other pollutant column becomes float64, where
  \<open>None\<close> is stored as NaN.
\<close>

definition float_column :: "row list \<Rightarrow> string \<Rightarrow> bool" where
  "float_column rows pol = list_ex (\<lambda>r. row_get (readings r) pol None \<noteq> None) rows"

fun as_float :: "cell \<Rightarrow> cell" where
  "as_float None = Some NaN"
| "as_float (Some v) = Some v"

definition data_frame :: "row list \<Rightarrow> row list" where
  "data_frame rows =
     map (\<lambda>r. r\<lparr>readings :=
            map (\<lambda>(k, v). (k, if float_column rows k then as_float v else v)) (readings r)\<rparr>)
         rows"

text \<open>\<open>df.dropna(subset=POLLUTANTS, how="all")\<close> on a frame that has these columns.\<close>

definition has_reading :: "(string \<times> cell) list \<Rightarrow> bool" where
  "has_reading kvs = list_ex (\<lambda>pol. \<not> isna (row_get kvs pol None)) POLLUTANTS"

definition dropna_all :: "row list \<Rightarrow> row list" where
  "dropna_all rows = filter (\<lambda>r. has_reading (readings r)) rows"

record out_row = row +
  AQI :: "string option"
  severity :: pyfloat
  risk :: string
  hour :: nat

definition derive :: "row \<Rightarrow> error + out_row" where
  "derive r =
     bind_err (compute_severity (readings r)) (\<lambda>s.
       Inr \<lparr>city = city r, time = time r, readings = readings r,
            AQI = compute_aqi (row_get (readings r) ''pm2_5'' None),
            severity = s, risk = classify_risk s, hour = dt_hour (time r)\<rparr>)"

fun derive_all :: "row list \<Rightarrow> error + out_row list" where
  "derive_all [] = Inr []"
| "derive_all (r # rs) =
     bind_err (derive r) (\<lambda>out. bind_err (derive_all rs) (\<lambda>outs. Inr (out # outs)))"

text \<open>
  The whole script. With no record at all the frame has no columns and \<open>dropna\<close> raises
  KeyError for its subset.
\<close>

definition transform :: "raw_file list \<Rightarrow> error + out_row list" where
  "transform files =
     bind_err (read_files files []) (\<lambda>all_records.
       if all_records = [] then Inl KeyError
       else derive_all (dropna_all (data_frame all_records)))"

section \<open>Batch Committer (load.py)\<close>

subsection \<open>Serialisation of the staged frame\<close>

text \<open>
  A cell of the frame that \<open>pd.read_csv\<close> gives, and a value of a record handed to the
  remote store: \<open>None\<close>, NaN, a number or a string. An empty CSV field is read as NaN.
\<close>

datatype fval = FNone | FNaN | FNum real | FStr string

text \<open>\<open>strftime("%Y-%m-%dT%H:%M:%S")\<close>, with zero-padded decimal fields.\<close>

definition digit :: "nat \<Rightarrow> char" where
  "digit n = ''0123456789'' ! (n mod 10)"

definition pad2 :: "nat \<Rightarrow> string" where
  "pad2 n = [digit (n div 10), digit n]"

definition pad4 :: "nat \<Rightarrow> string" where
  "pad4 n = [digit (n div 1000), digit (n div 100), digit (n div 10), digit n]"

definition strftime :: "datetime \<Rightarrow> string" where
  "strftime t =
     pad4 (dt_year t) @ ''-'' @ pad2 (dt_month t) @ ''-'' @ pad2 (dt_day t) @ ''T'' @
     pad2 (dt_hour t) @ '':'' @ pad2 (dt_minute t) @ '':'' @ pad2 (dt_second t)"

text \<open>
  A row of the staged frame: the cell of its \<open>time\<close> column (empty, or a string as
  \<open>pd.to_datetime\<close> sees it) and the cells of its other columns by name. The records
  below list \<open>time\<close> first; the order of the keys of a record plays no part.
\<close>

record staged_row =
  s_time :: "tval option"
  s_cells :: "(string \<times> fval) list"

text \<open>
  \<open>pd.to_datetime(df["time"]).dt.strftime(...)\<close>: an empty cell is NaT and formats to
  NaN; an unparseable string raises.
\<close>

fun time_cell :: "tval option \<Rightarrow> error + fval" where
  "time_cell None = Inr FNaN"
| "time_cell (Some ts) = bind_err (to_datetime ts) (\<lambda>t. Inr (FStr (strftime t)))"

fun time_column :: "staged_row list \<Rightarrow> error + fval list" where
  "time_column [] = Inr []"
| "time_column (r # rs) =
     bind_err (time_cell (s_time r)) (\<lambda>c. bind_err (time_column rs) (\<lambda>cs. Inr (c # cs)))"

definition rename_map :: "(string \<times> string) list" where
  "rename_map =
     [(''AQI'', ''aqi_category''), (''severity'', ''severity_score''), (''risk'', ''risk_flag'')]"

definition rename :: "string \<Rightarrow> string" where
  "rename name = (case map_of rename_map name of None \<Rightarrow> name | Some new \<Rightarrow> new)"

text \<open>
  \<open>df.where(pd.notnull(df), None)\<close>. A column that holds a string has dtype object, and
  there every null cell becomes \<open>None\<close>. A numeric column is float64 and cannot hold
  \<open>None\<close>: pandas (from version 1.3 on, which the \<open>resample("h")\<close> of etl_analysis.py
  presupposes) reads \<open>other=None\<close> as that column's own missing value, NaN, so the column
  keeps its NaN cells. The \<open>time\<close> column is an object column after \<open>strftime\<close>.
\<close>

fun is_text :: "fval option \<Rightarrow> bool" where
  "is_text (Some (FStr s)) = True"
| "is_text _ = False"

definition object_column :: "staged_row list \<Rightarrow> string \<Rightarrow> bool" where
  "object_column rows name = list_ex (\<lambda>r. is_text (map_of (s_cells r) name)) rows"

definition where_notnull_none :: "bool \<Rightarrow> fval \<Rightarrow> fval" where
  "where_notnull_none object_dtype v =
     (if v = FNaN \<or> v = FNone then (if object_dtype then FNone else FNaN) else v)"

text \<open>\<open>df.to_dict(orient="records")\<close> after the renaming and the replacement.\<close>

definition to_record :: "staged_row list \<Rightarrow> staged_row \<Rightarrow> fval \<Rightarrow> (string \<times> fval) list" where
  "to_record rows r t =
     (''time'', where_notnull_none True t) #
     map (\<lambda>(name, v). (rename name, where_notnull_none (object_column rows name) v)) (s_cells r)"

definition load_records :: "staged_row list \<Rightarrow> error + (string \<times> fval) list list" where
  "load_records rows =
     bind_err (time_column rows) (\<lambda>ts. Inr (map (\<lambda>(r, t). to_record rows r t) (zip rows ts)))"

subsection \<open>Batch insert\<close>

text \<open>
  The state of the loop is the counter \<open>total_inserted\<close> and the lines printed so far:
  a batch inserted (number, rows), a failed attempt (the attempt counter after the
  failure) and a batch given up (number). The remote store is a function \<open>ins\<close>:
  \<open>ins k a\<close> tells whether the insert of batch number \<open>k\<close> succeeds when \<open>a\<close> attempts
  of that batch have failed before.
\<close>

datatype event = Inserted nat nat | AttemptFailed nat | BatchFailed nat

record load_state =
  total_inserted :: nat
  log :: "event list"

text \<open>The \<open>while attempt <= MAX_RETRIES\<close> loop with its \<open>else\<close> clause.\<close>

function retry_loop ::
  "(nat \<Rightarrow> nat \<Rightarrow> bool) \<Rightarrow> int \<Rightarrow> nat \<Rightarrow> 'r list \<Rightarrow> nat \<Rightarrow> load_state \<Rightarrow> load_state" where
  "retry_loop ins max_retries batch_no batch attempt st =
     (if int attempt \<le> max_retries then
        if ins batch_no attempt then
          st\<lparr>total_inserted := total_inserted st + length batch,
             log := log st @ [Inserted batch_no (length batch)]\<rparr>
        else retry_loop ins max_retries batch_no batch (Suc attempt)
               (st\<lparr>log := log st @ [AttemptFailed (Suc attempt)]\<rparr>)
      else st\<lparr>log := log st @ [BatchFailed batch_no]\<rparr>)"
  by pat_completeness auto
termination
  by (relation "measure (\<lambda>(ins, max_retries, batch_no, batch, attempt, st).
                  nat (max_retries + 1 - int attempt))") auto

text \<open>
  \<open>range(0, stop, step)\<close>: a zero step raises ValueError, a negative one gives the empty
  range, a positive one the multiples of \<open>step\<close> below \<open>stop\<close>.
\<close>

definition py_range :: "nat \<Rightarrow> int \<Rightarrow> error + nat list" where
  "py_range stop step =
     (if step = 0 then Inl ValueError
      else if step < 0 then Inr []
      else Inr (map (\<lambda>k. k * nat step) [0..<(stop + nat step - 1) div nat step]))"

text \<open>\<open>records[i:i+BATCH_SIZE]\<close> for a positive batch size.\<close>

definition slice :: "'r list \<Rightarrow> nat \<Rightarrow> int \<Rightarrow> 'r list" where
  "slice records i batch_size = take (nat batch_size) (drop i records)"

definition commit_all ::
  "(nat \<Rightarrow> nat \<Rightarrow> bool) \<Rightarrow> int \<Rightarrow> int \<Rightarrow> 'r list \<Rightarrow> error + load_state" where
  "commit_all ins batch_size max_retries records =
     bind_err (py_range (length records) batch_size) (\<lambda>starts.
       Inr (foldl (\<lambda>st i. retry_loop ins max_retries (i div nat batch_size + 1)
                             (slice records i batch_size) 0 st)
                  \<lparr>total_inserted = 0, log = []\<rparr> starts))"

text \<open>What the printed lines record: the batches given up and the batches inserted.\<close>

fun failed_batches :: "event list \<Rightarrow> nat list" where
  "failed_batches [] = []"
| "failed_batches (BatchFailed k # es) = k # failed_batches es"
| "failed_batches (e # es) = failed_batches es"

fun inserted_batches :: "event list \<Rightarrow> (nat \<times> nat) list" where
  "inserted_batches [] = []"
| "inserted_batches (Inserted k n # es) = (k, n) # inserted_batches es"
| "inserted_batches (e # es) = inserted_batches es"

text \<open>Some attempt of batch \<open>k\<close>, from attempt counter \<open>attempt\<close> on, succeeds within the retries.\<close>

definition succeeds :: "(nat \<Rightarrow> nat \<Rightarrow> bool) \<Rightarrow> int \<Rightarrow> nat \<Rightarrow> nat \<Rightarrow> bool" where
  "succeeds ins mr k attempt = (\<exists>a \<ge> attempt. int a \<le> mr \<and> ins k a)"

section \<open>Aggregator (etl_analysis.py)\<close>






section \<open>Example inputs\<close>

definition ex_t0 :: datetime where
  "ex_t0 = \<lparr>dt_year = 2024, dt_month = 1, dt_day = 1, dt_hour = 0, dt_minute = 0, dt_second = 0\<rparr>"

text \<open>Three hours, six pollutants; the \<open>pm10\<close> array is one entry short, \<open>uv_index\<close> is absent.\<close>

definition ex_hourly :: hourly where
  "ex_hourly =
     \<lparr>h_time = [TStamp ex_t0, TStamp (ex_t0\<lparr>dt_hour := 1\<rparr>), TStamp (ex_t0\<lparr>dt_hour := 2\<rparr>)],
      h_series =
        [(''pm10'', [JNum 1, JNum 2]),
         (''pm2_5'', [JNum 10, JNum 20, JNum 30]),
         (''carbon_monoxide'', [JNum 1, JNum 1, JNum 1]),
         (''nitrogen_dioxide'', [JNum 1, JNum 1, JNum 1]),
         (''sulphur_dioxide'', [JNum 1, JNum 1, JNum 1]),
         (''ozone'', [JNum 1, JNum 1, JNum 1])]\<rparr>"

text \<open>The same document with an unparseable second timestamp.\<close>

definition ex_bad_time :: hourly where
  "ex_bad_time = ex_hourly\<lparr>h_time := [TStamp ex_t0, TBad, TStamp (ex_t0\<lparr>dt_hour := 2\<rparr>)]\<rparr>"

text \<open>The third row of \<open>ex_hourly\<close> as it stands in the frame.\<close>

definition ex_null_row :: "(string \<times> cell) list" where
  "ex_null_row =
     [(''pm10'', Some NaN), (''pm2_5'', Some (Fin 30)), (''carbon_monoxide'', Some (Fin 1)),
      (''nitrogen_dioxide'', Some (Fin 1)), (''sulphur_dioxide'', Some (Fin 1)),
      (''ozone'', Some (Fin 1)), (''uv_index'', None)]"

text \<open>Two hours with a single \<open>pm2_5\<close> reading: the second row has no reading at all.\<close>

definition ex_sparse :: hourly where
  "ex_sparse = \<lparr>h_time = [TStamp ex_t0, TStamp (ex_t0\<lparr>dt_hour := 1\<rparr>)],
                 h_series = [(''pm2_5'', [JNum 5])]\<rparr>"

definition ex_files :: "raw_file list" where
  "ex_files = [\<lparr>f_city = ''Delhi'', f_doc = Some ex_hourly\<rparr>,
               \<lparr>f_city = ''Broken'', f_doc = None\<rparr>,
               \<lparr>f_city = ''Pune'', f_doc = Some ex_sparse\<rparr>]"

text \<open>A staged frame of two rows; the second has empty \<open>pm10\<close>, \<open>AQI\<close> and \<open>uv_index\<close> fields.\<close>

definition ex_staged :: "staged_row list" where
  "ex_staged =
     [\<lparr>s_time = Some (TStamp ex_t0),
       s_cells = [(''city'', FStr ''Delhi''), (''pm10'', FNum 1), (''pm2_5'', FNum 10),
                  (''carbon_monoxide'', FNum 1), (''nitrogen_dioxide'', FNum 1),
                  (''sulphur_dioxide'', FNum 1), (''ozone'', FNum 1), (''uv_index'', FNaN),
                  (''AQI'', FStr ''Good''), (''severity'', FNum 66), (''risk'', FStr ''Low Risk''),
                  (''hour'', FNum 0)]\<rparr>,
      \<lparr>s_time = Some (TStamp (ex_t0\<lparr>dt_hour := 1\<rparr>)),
       s_cells = [(''city'', FStr ''Delhi''), (''pm10'', FNaN), (''pm2_5'', FNaN),
                  (''carbon_monoxide'', FNum 1), (''nitrogen_dioxide'', FNum 1),
                  (''sulphur_dioxide'', FNum 1), (''ozone'', FNum 1), (''uv_index'', FNaN),
                  (''AQI'', FNaN), (''severity'', FNaN), (''risk'', FStr ''Low Risk''),
                  (''hour'', FNum 1)]\<rparr>]"

section \<open>Auxiliary lemmas\<close>

lemmas transform_eval_defs =
  transform_def ex_hourly_def ex_t0_def build_row_def POLLUTANTS_def reading_def series_get_def
  data_frame_def float_column_def row_get_def dropna_all_def has_reading_def derive_def
  compute_severity_def classify_risk_def

lemma bind_err_simps [simp]:
  "bind_err (Inl e) f = Inl e"
  "bind_err (Inr x) f = f x"
  by (simp_all add: bind_err_def)

lemma bind_err_Inr_iff: "bind_err m f = Inr y \<longleftrightarrow> (\<exists>x. m = Inr x \<and> f x = Inr y)"
  by (cases m) simp_all

lemma fadd_NaN [simp]: "fadd NaN x = NaN" "fadd x NaN = NaN"
  by (cases x; simp)+

text \<open>With six finite readings the severity is the weighted sum.\<close>

lemma compute_severity_finite:
  assumes "map_of r ''pm2_5'' = Some (Some (Fin a))" "map_of r ''pm10'' = Some (Some (Fin b))"
    "map_of r ''nitrogen_dioxide'' = Some (Some (Fin c))"
    "map_of r ''sulphur_dioxide'' = Some (Some (Fin d))"
    "map_of r ''carbon_monoxide'' = Some (Some (Fin e))" "map_of r ''ozone'' = Some (Some (Fin f))"
  shows "compute_severity r = Inr (Fin (a * 5 + b * 3 + c * 4 + d * 4 + e * 2 + f * 3))"
  using assms by (simp add: compute_severity_def row_get_def)

lemma build_rows_bad_timestamp: "TBad \<in> set ts \<Longrightarrow> build_rows c h i ts acc = Inl ValueError"
proof (induction ts arbitrary: i acc)
  case Nil
  then show ?case by simp
next
  case (Cons t ts)
  then show ?case by (cases t) (auto simp: build_row_def)
qed



lemma derive_all_truncate: "derive_all rs = Inr outs \<Longrightarrow> map row.truncate outs = rs"
proof (induction rs arbitrary: outs)
  case Nil
  then show ?case by simp
next
  case (Cons r rs)
  then obtain out outs' where o:
    "derive r = Inr out" "derive_all rs = Inr outs'" "outs = out # outs'"
    by (auto simp: bind_err_Inr_iff)
  from o(1) have "row.truncate out = r"
    by (auto simp: derive_def bind_err_Inr_iff row.truncate_def)
  with Cons.IH[OF o(2)] o(3) show ?case by simp
qed

lemma failed_batches_append [simp]:
  "failed_batches (xs @ ys) = failed_batches xs @ failed_batches ys"
  by (induction xs rule: failed_batches.induct) auto

lemma inserted_batches_append [simp]:
  "inserted_batches (xs @ ys) = inserted_batches xs @ inserted_batches ys"
  by (induction xs rule: inserted_batches.induct) auto

lemma succeeds_step:
  "int attempt \<le> mr \<Longrightarrow> \<not> ins k attempt \<Longrightarrow>
   succeeds ins mr k (Suc attempt) = succeeds ins mr k attempt"
  unfolding succeeds_def by (metis Suc_leD Suc_leI le_neq_implies_less)

text \<open>What one run of the retry loop adds to the counter and to the printed lines.\<close>

lemma retry_loop_result:
  "total_inserted (retry_loop ins mr k batch attempt st) =
     total_inserted st + (if succeeds ins mr k attempt then length batch else 0) \<and>
   failed_batches (log (retry_loop ins mr k batch attempt st)) =
     failed_batches (log st) @ (if succeeds ins mr k attempt then [] else [k]) \<and>
   inserted_batches (log (retry_loop ins mr k batch attempt st)) =
     inserted_batches (log st) @ (if succeeds ins mr k attempt then [(k, length batch)] else [])"
proof (induction ins mr k batch attempt st rule: retry_loop.induct)
  case (1 ins mr k batch attempt st)
  show ?case
  proof (cases "int attempt \<le> mr")
    case False
    then have "\<not> succeeds ins mr k attempt" by (auto simp: succeeds_def)
    with False show ?thesis
      by (simp del: retry_loop.simps add: retry_loop.simps[of ins mr k batch attempt st])
  next
    case True
    show ?thesis
    proof (cases "ins k attempt")
      case t: True
      with True have "succeeds ins mr k attempt" by (auto simp: succeeds_def)
      with True t show ?thesis
        by (simp del: retry_loop.simps add: retry_loop.simps[of ins mr k batch attempt st])
    next
      case f: False
      from "1.IH"[OF True f] succeeds_step[of attempt mr ins k, OF True f] True f
      show ?thesis
        by (simp del: retry_loop.simps add: retry_loop.simps[of ins mr k batch attempt st])
    qed
  qed
qed

lemma py_range_450: "py_range 450 200 = Inr [0, 200, 400]"
  by (simp add: py_range_def upt_rec)








section \<open>Feature Deriver: properties\<close>

text \<open>
  Claim C1 says that compute_severity takes a null pollutant reading as 0, so that a row
  with some null readings gets the finite weighted sum over its non-null ones. The code
  does not: \<open>row.get(key, 0)\<close> falls back to 0 only for an absent key, and every row of
  the frame has all pollutant keys, a missing reading being NaN. For the snapshot
  \<open>ex_hourly\<close> the third row has \<open>pm2_5 = 30\<close>, four readings of 1 and no \<open>pm10\<close>: the
  claim gives 5 * 30 + 4 + 4 + 2 + 3 = 163, the code gives NaN.
\<close>

theorem compute_severity_null_reading:
  "compute_severity ex_null_row = Inr NaN \<and>
   map_sum id (map (\<lambda>r. (readings r, severity r)))
     (transform [\<lparr>f_city = ''Delhi'', f_doc = Some ex_hourly\<rparr>]) =
   Inr [([(''pm10'', Some (Fin 1)), (''pm2_5'', Some (Fin 10)), (''carbon_monoxide'', Some (Fin 1)),
          (''nitrogen_dioxide'', Some (Fin 1)), (''sulphur_dioxide'', Some (Fin 1)),
          (''ozone'', Some (Fin 1)), (''uv_index'', None)], Fin 66),
        ([(''pm10'', Some (Fin 2)), (''pm2_5'', Some (Fin 20)), (''carbon_monoxide'', Some (Fin 1)),
          (''nitrogen_dioxide'', Some (Fin 1)), (''sulphur_dioxide'', Some (Fin 1)),
          (''ozone'', Some (Fin 1)), (''uv_index'', None)], Fin 119),
        (ex_null_row, NaN)]"
  by (simp add: transform_eval_defs ex_null_row_def)

text \<open>
  Claim C4: classify_risk maps every severity strictly greater than 400 to High Risk, every
  severity strictly greater than 200 but not greater than 400 to Moderate Risk, and every
  other severity to Low Risk; 400.0 is Moderate Risk, 400.01 is High Risk and 200.0 is
  Low Risk.
\<close>

theorem classify_risk_thresholds:
  "classify_risk (Fin x) =
     (if x > 400 then ''High Risk'' else if x > 200 then ''Moderate Risk'' else ''Low Risk'')
   \<and> classify_risk (Fin 400) = ''Moderate Risk''
   \<and> classify_risk (Fin 400.01) = ''High Risk''
   \<and> classify_risk (Fin 200) = ''Low Risk''"
  by (simp add: classify_risk_def)

text \<open>
  Claim C10: classifying a NaN severity yields Low Risk, both comparisons being false for
  NaN; so a row in which a weighted pollutant reading is NaN, NaN going through the sum,
  gets severity NaN and risk Low Risk.
\<close>

theorem nan_severity_low_risk:
  assumes "key \<in> {''pm2_5'', ''pm10'', ''nitrogen_dioxide'', ''sulphur_dioxide'',
                   ''carbon_monoxide'', ''ozone''}"
    and "row_get (readings r) key (Some (Fin 0)) = Some NaN"
    and "derive r = Inr out"
  shows "classify_risk NaN = ''Low Risk'' \<and> severity out = NaN \<and> risk out = ''Low Risk''"
proof -
  have low: "classify_risk NaN = ''Low Risk''" by (simp add: classify_risk_def)
  from assms(3) obtain s where s: "compute_severity (readings r) = Inr s"
    and out: "severity out = s" "risk out = classify_risk s"
    by (auto simp: derive_def bind_err_Inr_iff)
  from s assms(1,2) have "s = NaN"
    by (auto simp: compute_severity_def bind_err_Inr_iff)
  with out low show ?thesis by simp
qed

theorem nan_severity_low_risk_witness:
  "\<exists>out. derive \<lparr>city = ''Delhi'', time = ex_t0, readings = ex_null_row\<rparr> = Inr out \<and>
     row_get ex_null_row ''pm10'' (Some (Fin 0)) = Some NaN \<and>
     classify_risk NaN = ''Low Risk'' \<and> severity out = NaN \<and> risk out = ''Low Risk''"
proof -
  let ?r = "\<lparr>city = ''Delhi'', time = ex_t0, readings = ex_null_row\<rparr>"
  have k: "''pm10'' \<in> {''pm2_5'', ''pm10'', ''nitrogen_dioxide'', ''sulphur_dioxide'',
                        ''carbon_monoxide'', ''ozone''}" by simp
  have g: "row_get (readings ?r) ''pm10'' (Some (Fin 0)) = Some NaN"
    by (simp add: ex_null_row_def row_get_def)
  have "\<exists>out. derive ?r = Inr out"
    by (simp add: derive_def compute_severity_def ex_null_row_def row_get_def)
  then obtain out where d: "derive ?r = Inr out" by blast
  from nan_severity_low_risk[OF k g d] d g show ?thesis by auto
qed

section \<open>Record Flattener: properties\<close>

text \<open>
  Claim C2 says that a row whose timestamp fails to parse is dropped while the other rows,
  of that snapshot and of the others, are still produced, the run never being aborted. The
  code calls \<open>pd.to_datetime(timestamp)\<close> with the default \<open>errors="raise"\<close> and catches
  nothing: one unparseable timestamp ends the whole script with ValueError and no row of
  any snapshot is written, whether the snapshot comes first or last. (etl_analysis.py does
  what the claim says: \<open>errors="coerce"\<close>, then \<open>dropna(subset=["time"])\<close>.)
\<close>

theorem transform_bad_timestamp_aborts:
  "transform [\<lparr>f_city = ''Delhi'', f_doc = Some ex_bad_time\<rparr>,
              \<lparr>f_city = ''Pune'', f_doc = Some ex_hourly\<rparr>] = Inl ValueError
   \<and> transform [\<lparr>f_city = ''Pune'', f_doc = Some ex_hourly\<rparr>,
                \<lparr>f_city = ''Delhi'', f_doc = Some ex_bad_time\<rparr>] = Inl ValueError"
  by (simp add: transform_eval_defs ex_bad_time_def)



text \<open>
  Claim C7: every row of the Flattener's final output has at least one non-null pollutant
  field; the output is, in order, exactly the rows of the frame that have one: a row with
  all seven pollutant fields null is excluded, a row with a non-null one is retained.
\<close>

theorem transform_keeps_rows_with_reading:
  assumes "transform files = Inr outs"
  shows "(\<forall>r \<in> set outs. \<exists>pol \<in> set POLLUTANTS. \<not> isna (row_get (readings r) pol None)) \<and>
         (\<exists>all_records. read_files files [] = Inr all_records \<and>
            map row.truncate outs =
              filter (\<lambda>r. \<exists>pol \<in> set POLLUTANTS. \<not> isna (row_get (readings r) pol None))
                     (data_frame all_records))"
proof -
  from assms obtain recs where recs: "read_files files [] = Inr recs"
    and d: "derive_all (dropna_all (data_frame recs)) = Inr outs"
    by (auto simp: transform_def bind_err_Inr_iff split: if_splits)
  have hr: "\<And>kvs. has_reading kvs = (\<exists>pol \<in> set POLLUTANTS. \<not> isna (row_get kvs pol None))"
    by (simp add: has_reading_def list_ex_iff)
  from derive_all_truncate[OF d]
  have eq: "map row.truncate outs =
      filter (\<lambda>r. \<exists>pol \<in> set POLLUTANTS. \<not> isna (row_get (readings r) pol None)) (data_frame recs)"
    by (simp add: dropna_all_def hr)
  have "\<forall>r \<in> set outs. \<exists>pol \<in> set POLLUTANTS. \<not> isna (row_get (readings r) pol None)"
  proof
    fix r
    assume "r \<in> set outs"
    then have "row.truncate r \<in> set (map row.truncate outs)" by simp
    then have "\<exists>pol \<in> set POLLUTANTS. \<not> isna (row_get (readings (row.truncate r)) pol None)"
      unfolding eq by simp
    then show "\<exists>pol \<in> set POLLUTANTS. \<not> isna (row_get (readings r) pol None)"
      by (simp add: row.truncate_def)
  qed
  with recs eq show ?thesis by blast
qed

theorem transform_keeps_rows_with_reading_witness:
  "\<exists>outs. transform ex_files = Inr outs \<and> length outs = 4 \<and>
     (\<forall>r \<in> set outs. \<exists>pol \<in> set POLLUTANTS. \<not> isna (row_get (readings r) pol None)) \<and>
     (\<exists>all_records. read_files ex_files [] = Inr all_records \<and> length all_records = 5 \<and>
        map row.truncate outs =
          filter (\<lambda>r. \<exists>pol \<in> set POLLUTANTS. \<not> isna (row_get (readings r) pol None))
                 (data_frame all_records))"
proof -
  have "\<exists>outs. transform ex_files = Inr outs \<and> length outs = 4"
    by (simp add: transform_eval_defs ex_files_def ex_sparse_def)
  then obtain outs where t: "transform ex_files = Inr outs" and len: "length outs = 4"
    by blast
  have rf: "\<exists>recs. read_files ex_files [] = Inr recs \<and> length recs = 5"
    by (simp add: transform_eval_defs ex_files_def ex_sparse_def)
  from transform_keeps_rows_with_reading[OF t] rf t len show ?thesis
    by auto
qed

section \<open>Batch Committer: properties\<close>

text \<open>
  Claim C3: 450 rows with batch size 200 and 2 retries form the three consecutive batches
  of 200, 200 and 50 rows. If every attempt of batch 2 fails (attempts 0, 1 and 2) while
  batches 1 and 3 succeed on some attempt, the run goes on past batch 2, ends with
  total_inserted = 250, and the batches reported as failed are exactly [2].
\<close>

theorem commit_450_rows_batch_2_fails:
  assumes "length records = 450"
    and "\<forall>a \<le> 2. \<not> ins 2 a"
    and "\<exists>a \<le> 2. ins 1 a"
    and "\<exists>a \<le> 2. ins 3 a"
  shows "\<exists>starts st. py_range (length records) 200 = Inr starts \<and>
           map (\<lambda>i. length (slice records i 200)) starts = [200, 200, 50] \<and>
           concat (map (\<lambda>i. slice records i 200) starts) = records \<and>
           commit_all ins 200 2 records = Inr st \<and>
           total_inserted st = 250 \<and>
           failed_batches (log st) = [2] \<and>
           inserted_batches (log st) = [(1, 200), (3, 50)]"
proof -
  have s1: "succeeds ins 2 1 0" using assms(3) by (auto simp: succeeds_def)
  have s2: "\<not> succeeds ins 2 2 0" using assms(2) by (auto simp: succeeds_def)
  have s3: "succeeds ins 2 3 0" using assms(4) by (auto simp: succeeds_def)
  have l1: "length (slice records 0 200) = 200" using assms(1) by (simp add: slice_def)
  have l2: "length (slice records 200 200) = 200" using assms(1) by (simp add: slice_def)
  have l3: "length (slice records 400 200) = 50" using assms(1) by (simp add: slice_def)
  have r: "py_range (length records) 200 = Inr [0, 200, 400]"
    using assms(1) py_range_450 by simp
  have cat: "concat (map (\<lambda>i. slice records i 200) [0, 200, 400]) = records"
  proof -
    have "take 200 (drop 200 records) @ drop 200 (drop 200 records) = drop 200 records"
      by (rule append_take_drop_id)
    then have "take 200 records @ take 200 (drop 200 records) @ drop 400 records
               = take 200 records @ drop 200 records"
      by simp
    also have "\<dots> = records" by simp
    finally show ?thesis using assms(1) by (simp add: slice_def)
  qed
  define st1 where
    "st1 = retry_loop ins 2 1 (slice records 0 200) 0 \<lparr>total_inserted = 0, log = []\<rparr>"
  define st2 where "st2 = retry_loop ins 2 2 (slice records 200 200) 0 st1"
  define st3 where "st3 = retry_loop ins 2 3 (slice records 400 200) 0 st2"
  have b1: "(0::nat) div nat 200 + 1 = 1" by simp
  have b2: "(200::nat) div nat 200 + 1 = 2" by simp
  have b3: "(400::nat) div nat 200 + 1 = 3" by simp
  have c: "commit_all ins 200 2 records = Inr st3"
    unfolding commit_all_def r st1_def st2_def st3_def
    by (simp only: bind_err_simps foldl_Cons foldl_Nil b1 b2 b3)
  have r1: "total_inserted st1 = 200 \<and> failed_batches (log st1) = [] \<and>
            inserted_batches (log st1) = [(1, 200)]"
    unfolding st1_def
    using retry_loop_result[of ins 2 1 "slice records 0 200" 0 "\<lparr>total_inserted = 0, log = []\<rparr>"]
      s1 l1
    by simp
  have r2: "total_inserted st2 = 200 \<and> failed_batches (log st2) = [2] \<and>
            inserted_batches (log st2) = [(1, 200)]"
    unfolding st2_def
    using retry_loop_result[of ins 2 2 "slice records 200 200" 0 st1] s2 r1
    by simp
  have r3: "total_inserted st3 = 250 \<and> failed_batches (log st3) = [2] \<and>
            inserted_batches (log st3) = [(1, 200), (3, 50)]"
    unfolding st3_def
    using retry_loop_result[of ins 2 3 "slice records 400 200" 0 st2] s3 l3 r2
    by simp
  from r c cat l1 l2 l3 r3 show ?thesis by simp
qed

theorem commit_450_rows_batch_2_fails_witness:
  "\<exists>st. commit_all (\<lambda>k a. k \<noteq> 2 \<and> a = 1) 200 2 (replicate 450 (0::nat)) = Inr st \<and>
     total_inserted st = 250 \<and> failed_batches (log st) = [2] \<and>
     inserted_batches (log st) = [(1, 200), (3, 50)]"
proof -
  have a: "length (replicate 450 (0::nat)) = 450" by simp
  have b: "\<forall>a \<le> 2. \<not> (\<lambda>k a. k \<noteq> (2::nat) \<and> a = (1::nat)) 2 a" by simp
  have c: "\<exists>a \<le> 2. (\<lambda>k a. k \<noteq> (2::nat) \<and> a = (1::nat)) 1 a" by auto
  have d: "\<exists>a \<le> 2. (\<lambda>k a. k \<noteq> (2::nat) \<and> a = (1::nat)) 3 a" by auto
  from commit_450_rows_batch_2_fails[of "replicate 450 (0::nat)" "\<lambda>k a. k \<noteq> 2 \<and> a = 1",
      OF a b c d]
  show ?thesis by blast
qed

text \<open>
  Claim C5 says that every timestamp is sent as an ISO-8601 string and every null field as
  an explicit \<open>None\<close>, never as NaN. The timestamps are, and so are the null cells of the
  string columns; but \<open>df.where(pd.notnull(df), None)\<close> leaves the NaN of a numeric column
  in place, against the module's own "Converts NaN -> NULL". In \<open>ex_staged\<close> the second
  row has empty \<open>pm10\<close>, \<open>pm2_5\<close>, \<open>uv_index\<close>, \<open>AQI\<close> and \<open>severity\<close> fields: its record
  carries \<open>None\<close> for \<open>aqi_category\<close> and NaN for the four numeric fields.
\<close>

theorem load_records_numeric_null_stays_nan:
  "load_records ex_staged =
     Inr [[(''time'', FStr ''2024-01-01T00:00:00''), (''city'', FStr ''Delhi''),
           (''pm10'', FNum 1), (''pm2_5'', FNum 10), (''carbon_monoxide'', FNum 1),
           (''nitrogen_dioxide'', FNum 1), (''sulphur_dioxide'', FNum 1), (''ozone'', FNum 1),
           (''uv_index'', FNaN), (''aqi_category'', FStr ''Good''), (''severity_score'', FNum 66),
           (''risk_flag'', FStr ''Low Risk''), (''hour'', FNum 0)],
          [(''time'', FStr ''2024-01-01T01:00:00''), (''city'', FStr ''Delhi''),
           (''pm10'', FNaN), (''pm2_5'', FNaN), (''carbon_monoxide'', FNum 1),
           (''nitrogen_dioxide'', FNum 1), (''sulphur_dioxide'', FNum 1), (''ozone'', FNum 1),
           (''uv_index'', FNaN), (''aqi_category'', FNone), (''severity_score'', FNaN),
           (''risk_flag'', FStr ''Low Risk''), (''hour'', FNum 1)]]"
  by (simp add: load_records_def ex_staged_def ex_t0_def to_record_def where_notnull_none_def
      object_column_def rename_def rename_map_def strftime_def pad2_def pad4_def digit_def)

section \<open>Aggregator: properties\<close>


end
